theory Spec2Isabelle
  imports Main "HOL-Library.Word"
begin

section \<open>Kafka pub/sub adapter: data model\<close>

text \<open>
  The adapter of \<^verbatim>\<open>pubsub/kafka/kafka.go\<close>. Go strings are byte sequences
  (\<^typ>\<open>string\<close>), a \<^verbatim>\<open>[]byte\<close> payload is a list of 8-bit words, a Go
  \<^verbatim>\<open>error\<close> value is an opaque message, and a \<^verbatim>\<open>nil\<close> error is
  \<^const>\<open>None\<close>. A nil slice and an empty slice are both the empty list.
\<close>

type_synonym bytes = "8 word list"

datatype error = Error string

text \<open>
  Run-time panics of Go that the adapter can raise itself: closing a channel twice,
  closing a nil channel, and calling a method on a nil interface value.
\<close>

datatype fault = CloseOfClosedChannel | CloseOfNilChannel | NilDereference

text \<open>
  Modelled from the spec: the declarations of package \<^verbatim>\<open>pubsub\<close>
  (\<^verbatim>\<open>Metadata\<close>, \<^verbatim>\<open>PublishRequest\<close>, \<^verbatim>\<open>NewMessage\<close>) are not part of
  the sources at hand. The spec describes the initialisation input as a flat
  string-to-string property map, the publish input as a record of a topic and an opaque byte
  sequence, and the inbound message as a topic name with an opaque byte payload.
\<close>

record Metadata =
  Properties :: "string \<rightharpoonup> string"

record PublishRequest =
  req_Topic :: string
  req_Data :: bytes

record NewMessage =
  msg_Topic :: string
  msg_Data :: bytes

text \<open>The struct \<^verbatim>\<open>kafkaMetadata\<close>.\<close>

record kafkaMetadata =
  Brokers :: "string list"
  Topics :: "string list"
  PublishTopic :: string
  ConsumerGroup :: string

section \<open>Configuration resolver\<close>

text \<open>
  \<^verbatim>\<open>strings.Split(s, sep)\<close> of the Go standard library, for a separator of one byte
  (the adapter only ever passes \<^verbatim>\<open>","\<close>): the substrings between the separators,
  in order; a string without separator is returned as the only element, the empty string
  included.
\<close>

fun Split :: "string \<Rightarrow> char \<Rightarrow> string list" where
  "Split [] sep = [[]]"
| "Split (c # cs) sep =
     (if c = sep then [] # Split cs sep
      else (case Split cs sep of
              [] \<Rightarrow> [[c]]
            | w # ws \<Rightarrow> (c # w) # ws))"

text \<open>
  The words of the specification: a value is a comma-joined string when it is the
  elements of a list written one after the other with the separator in between
  (\<^verbatim>\<open>strings.Join\<close>).
\<close>

fun Join :: "string list \<Rightarrow> char \<Rightarrow> string" where
  "Join [] sep = []"
| "Join [w] sep = w"
| "Join (w # v # ws) sep = w @ sep # Join (v # ws) sep"

text \<open>
  A lookup in a Go map yields the zero value, the empty string, for a missing key; the
  two-result form also tells whether the key is present.
\<close>

definition map_index :: "(string \<rightharpoonup> string) \<Rightarrow> string \<Rightarrow> string" where
  "map_index m k = (case m k of None \<Rightarrow> [] | Some v \<Rightarrow> v)"

definition map_index_ok :: "(string \<rightharpoonup> string) \<Rightarrow> string \<Rightarrow> string \<times> bool" where
  "map_index_ok m k = (case m k of None \<Rightarrow> ([], False) | Some v \<Rightarrow> (v, True))"

definition kafkaMetadata_zero :: kafkaMetadata where
  "kafkaMetadata_zero = \<lparr>Brokers = [], Topics = [], PublishTopic = [], ConsumerGroup = []\<rparr>"

text \<open>\<^verbatim>\<open>getKafkaMetadata\<close>: the resolved configuration and the error result.\<close>

definition getKafkaMetadata :: "Metadata \<Rightarrow> kafkaMetadata \<times> error option" where
  "getKafkaMetadata metadata =
     (let meta = kafkaMetadata_zero;
          meta = meta\<lparr>ConsumerGroup := map_index (Properties metadata) ''consumerGroup''\<rparr>;
          meta = (case map_index_ok (Properties metadata) ''brokers'' of
                    (val, ok) \<Rightarrow>
                      if ok \<and> val \<noteq> [] then meta\<lparr>Brokers := Split val CHR '',''\<rparr> else meta);
          meta = (case map_index_ok (Properties metadata) ''topics'' of
                    (val, ok) \<Rightarrow>
                      if ok \<and> val \<noteq> [] then meta\<lparr>Topics := Split val CHR '',''\<rparr> else meta)
      in (meta, None))"

section \<open>The client library and the outside world\<close>

text \<open>
  The Kafka client library (sarama) is an external collaborator: its types are modelled
  by the fields the adapter touches, and its operations are parameters of the model.
\<close>

record ProducerMessage =
  pm_Topic :: string
  pm_Value :: bytes

text \<open>
  A delivered record. The adapter reads its \<^verbatim>\<open>Value\<close> only; the topic handed to the
  callback is the one of the claim the record arrives on.
\<close>

record ConsumerMessage =
  cm_Offset :: int
  cm_Value :: bytes

text \<open>
  A partition claim: its topic and the records that arrive on its message channel until
  the channel is closed (the \<^verbatim>\<open>range\<close> loop ends exactly then).
\<close>

record ConsumerGroupClaim =
  claim_Topic :: string
  claim_Messages :: "ConsumerMessage list"

type_synonym KafkaVersion = "nat \<times> nat \<times> nat \<times> nat"

definition V1_0_0_0 :: KafkaVersion where
  "V1_0_0_0 = (1, 0, 0, 0)"

text \<open>\<^verbatim>\<open>RequiredAcks\<close> is an \<^verbatim>\<open>int16\<close>; \<^verbatim>\<open>WaitForAll\<close> is \<open>-1\<close>.\<close>

type_synonym RequiredAcks = "16 word"

definition WaitForAll :: RequiredAcks where
  "WaitForAll = - 1"

record Config =
  Version :: KafkaVersion
  Producer_RequiredAcks :: RequiredAcks
  Producer_Retry_Max :: int
  Producer_Return_Successes :: bool

datatype SyncProducer = SyncProducerHandle nat

datatype ConsumerGroupClient = ConsumerGroupHandle nat

text \<open>
  Every call that leaves the adapter is recorded, in order, in a trace.
\<close>

datatype event =
    EvNewSyncProducer "string list" Config
  | EvSendMessage SyncProducer ProducerMessage
  | EvNewConsumerGroup "string list" string Config
  | EvConsume ConsumerGroupClient "string list"
  | EvLogError error
  | EvClose ConsumerGroupClient
  | EvReceive ConsumerMessage
  | EvCallback NewMessage "error option"
  | EvMarkMessage ConsumerMessage string

text \<open>
  The world: the channels allocated so far (channel \<open>i\<close> exists when \<open>i\<close> is below the
  length of \<open>chans\<close>, and its entry tells whether it has been closed), the state of the
  cancellation context of the running subscription, the trace, and the state \<open>ext\<close> of
  everything outside the adapter (brokers, client library, the callback's own data).
\<close>

record 'e world =
  chans :: "bool list"
  ctx_done :: bool
  trace :: "event list"
  ext :: 'e

definition emit :: "event \<Rightarrow> 'e world \<Rightarrow> 'e world" where
  "emit ev w = w\<lparr>trace := trace w @ [ev]\<rparr>"

text \<open>\<^verbatim>\<open>make(chan bool)\<close>: a fresh, open channel.\<close>

definition make_chan :: "'e world \<Rightarrow> nat \<times> 'e world" where
  "make_chan w = (length (chans w), w\<lparr>chans := chans w @ [False]\<rparr>)"

definition is_closed :: "nat \<Rightarrow> 'e world \<Rightarrow> bool" where
  "is_closed ch w = (ch < length (chans w) \<and> chans w ! ch)"

text \<open>
  \<^verbatim>\<open>close(ch)\<close>: panics on a nil channel and on a channel that is closed already.
  Channel values come from \<open>make_chan\<close> only, so a channel that is not nil exists.
\<close>

definition close_chan :: "nat option \<Rightarrow> 'e world \<Rightarrow> fault + 'e world" where
  "close_chan ch w =
     (case ch of
        None \<Rightarrow> Inl CloseOfNilChannel
      | Some i \<Rightarrow>
          if is_closed i w then Inl CloseOfClosedChannel
          else Inr (w\<lparr>chans := (chans w)[i := True]\<rparr>))"

text \<open>The struct \<^verbatim>\<open>consumer\<close>; a nil callback is \<^const>\<open>None\<close>.\<close>

record 'e consumer =
  ready :: "nat option"
  callback :: "(NewMessage \<Rightarrow> 'e \<Rightarrow> error option \<times> 'e) option"

text \<open>
  The operations of the client library. A constructor yields either an error or a handle.
  \<^verbatim>\<open>Consume\<close> drives the hooks of the handler it is given, so it acts on the whole
  world; while it blocks, the main goroutine may cancel the context.
\<close>

record 'e sarama =
  NewConfig :: Config
  NewSyncProducer :: "string list \<Rightarrow> Config \<Rightarrow> 'e \<Rightarrow> (error + SyncProducer) \<times> 'e"
  SendMessage :: "SyncProducer \<Rightarrow> ProducerMessage \<Rightarrow> 'e \<Rightarrow> (int \<times> int \<times> error option) \<times> 'e"
  NewConsumerGroup :: "string list \<Rightarrow> string \<Rightarrow> Config \<Rightarrow> 'e \<Rightarrow> (error + ConsumerGroupClient) \<times> 'e"
  Consume :: "ConsumerGroupClient \<Rightarrow> string list \<Rightarrow> 'e consumer \<Rightarrow> 'e world
                \<Rightarrow> fault + (error option \<times> 'e world)"
  Close :: "ConsumerGroupClient \<Rightarrow> 'e \<Rightarrow> error option \<times> 'e"

section \<open>The session handler\<close>

text \<open>\<^verbatim>\<open>Setup\<close> closes the ready channel and returns nil.\<close>

definition Setup :: "'e consumer \<Rightarrow> 'e world \<Rightarrow> fault + (error option \<times> 'e world)" where
  "Setup consumer w =
     (case close_chan (ready consumer) w of
        Inl f \<Rightarrow> Inl f
      | Inr w' \<Rightarrow> Inr (None, w'))"

text \<open>\<^verbatim>\<open>session.MarkMessage(message, metadata)\<close>.\<close>

definition MarkMessage :: "ConsumerMessage \<Rightarrow> string \<Rightarrow> 'e world \<Rightarrow> 'e world" where
  "MarkMessage message metadata w = emit (EvMarkMessage message metadata) w"

text \<open>The body of the \<^verbatim>\<open>range\<close> loop of \<^verbatim>\<open>ConsumeClaim\<close>, for one record.\<close>

definition consume_message :: "'e consumer \<Rightarrow> string \<Rightarrow> ConsumerMessage \<Rightarrow> 'e world \<Rightarrow> 'e world" where
  "consume_message consumer topic message w =
     (let w = emit (EvReceive message) w in
      case callback consumer of
        None \<Rightarrow> w
      | Some cb \<Rightarrow>
          (let msg = \<lparr>msg_Topic = topic, msg_Data = cm_Value message\<rparr> in
           case cb msg (ext w) of
             (err, e') \<Rightarrow>
               (let w = emit (EvCallback msg err) (w\<lparr>ext := e'\<rparr>) in
                if err = None then MarkMessage message [] w else w)))"

primrec range_Messages :: "'e consumer \<Rightarrow> string \<Rightarrow> ConsumerMessage list \<Rightarrow> 'e world \<Rightarrow> 'e world" where
  "range_Messages consumer topic [] w = w"
| "range_Messages consumer topic (message # rest) w =
     range_Messages consumer topic rest (consume_message consumer topic message w)"

definition ConsumeClaim :: "'e consumer \<Rightarrow> ConsumerGroupClaim \<Rightarrow> 'e world \<Rightarrow> error option \<times> 'e world" where
  "ConsumeClaim consumer claim w =
     (None, range_Messages consumer (claim_Topic claim) (claim_Messages claim) w)"

definition Cleanup :: "'e consumer \<Rightarrow> 'e world \<Rightarrow> error option \<times> 'e world" where
  "Cleanup consumer w = (None, w)"

section \<open>The adapter\<close>

text \<open>The struct \<^verbatim>\<open>Kafka\<close>; the producer is nil until \<^verbatim>\<open>Init\<close> has succeeded.\<close>

record Kafka =
  producer :: "SyncProducer option"
  topics :: "string list"
  consumerGroup :: string
  brokers :: "string list"

definition NewKafka :: Kafka where
  "NewKafka = \<lparr>producer = None, topics = [], consumerGroup = [], brokers = []\<rparr>"

definition getSyncProducer :: "'e sarama \<Rightarrow> kafkaMetadata \<Rightarrow> 'e world \<Rightarrow> (error + SyncProducer) \<times> 'e world" where
  "getSyncProducer lib meta w =
     (let config = NewConfig lib;
          config = config\<lparr>Producer_RequiredAcks := WaitForAll\<rparr>;
          config = config\<lparr>Producer_Retry_Max := 5\<rparr>;
          config = config\<lparr>Producer_Return_Successes := True\<rparr>;
          w = emit (EvNewSyncProducer (Brokers meta) config) w
      in case NewSyncProducer lib (Brokers meta) config (ext w) of
           (Inl err, e') \<Rightarrow> (Inl err, w\<lparr>ext := e'\<rparr>)
         | (Inr p, e') \<Rightarrow> (Inr p, w\<lparr>ext := e'\<rparr>))"

text \<open>
  \<^verbatim>\<open>Init\<close>. The part of the body that follows the call of \<^verbatim>\<open>getKafkaMetadata\<close>
  is a function of what the call returned, so that both of its error branches can be
  spoken about.
\<close>

definition Init_body ::
  "'e sarama \<Rightarrow> Kafka \<Rightarrow> kafkaMetadata \<times> error option \<Rightarrow> 'e world
     \<Rightarrow> error option \<times> Kafka \<times> 'e world" where
  "Init_body lib k resolved w =
     (case resolved of
        (meta, Some err) \<Rightarrow> (Some err, k, w)
      | (meta, None) \<Rightarrow>
          (case getSyncProducer lib meta w of
             (Inl err, w') \<Rightarrow> (Some err, k, w')
           | (Inr p, w') \<Rightarrow>
               (None,
                k\<lparr>brokers := Brokers meta, producer := Some p,
                  topics := Topics meta, consumerGroup := ConsumerGroup meta\<rparr>,
                w')))"

definition Init :: "'e sarama \<Rightarrow> Kafka \<Rightarrow> Metadata \<Rightarrow> 'e world \<Rightarrow> error option \<times> Kafka \<times> 'e world" where
  "Init lib k metadata w = Init_body lib k (getKafkaMetadata metadata) w"

definition Publish :: "'e sarama \<Rightarrow> Kafka \<Rightarrow> PublishRequest \<Rightarrow> 'e world \<Rightarrow> fault + (error option \<times> 'e world)" where
  "Publish lib k req w =
     (case producer k of
        None \<Rightarrow> Inl NilDereference
      | Some p \<Rightarrow>
          (let message = \<lparr>pm_Topic = req_Topic req, pm_Value = req_Data req\<rparr>;
               w = emit (EvSendMessage p message) w
           in case SendMessage lib p message (ext w) of
                ((_, _, err), e') \<Rightarrow>
                  (case err of
                     Some e \<Rightarrow> Inr (Some e, w\<lparr>ext := e'\<rparr>)
                   | None \<Rightarrow> Inr (None, w\<lparr>ext := e'\<rparr>))))"

section \<open>Subscription\<close>

text \<open>
  The loop of the goroutine started by \<^verbatim>\<open>Subscribe\<close>. It may run forever, so its
  result is optional: \<^const>\<open>None\<close> means that the loop never exits. A panic raised
  inside \<^verbatim>\<open>Consume\<close> (by a hook of the handler) ends the loop with that fault.
\<close>

partial_function (option) consume_loop ::
  "'e sarama \<Rightarrow> ConsumerGroupClient \<Rightarrow> string list \<Rightarrow> 'e consumer \<Rightarrow> 'e world
     \<Rightarrow> (fault + 'e consumer \<times> 'e world) option" where
  "consume_loop lib client tps cs w =
     (case Consume lib client tps cs (emit (EvConsume client tps) w) of
        Inl f \<Rightarrow> Some (Inl f)
      | Inr (err, w) \<Rightarrow>
          (let w = (case err of Some e \<Rightarrow> emit (EvLogError e) w | None \<Rightarrow> w) in
           if ctx_done w then Some (Inr (cs, w))
           else (case make_chan w of
                   (ch, w) \<Rightarrow> consume_loop lib client tps (cs\<lparr>ready := Some ch\<rparr>) w)))"

declare consume_loop.simps [code]

text \<open>
  \<^verbatim>\<open>Subscribe\<close>, with the main goroutine and the loop goroutine put in sequence. The
  main goroutine only waits while the loop runs: first for the ready channel it created to
  be closed, then for a termination signal, upon which it cancels the context. The loop
  sees this through \<open>ctx_done\<close> alone, which the environment sets during a
  \<^verbatim>\<open>Consume\<close> step. A loop that exits although the first ready channel was never
  closed leaves the main goroutine blocked on that channel, so the call does not return.
\<close>

definition Subscribe ::
  "'e sarama \<Rightarrow> Kafka \<Rightarrow> (NewMessage \<Rightarrow> 'e \<Rightarrow> error option \<times> 'e) option \<Rightarrow> 'e world
     \<Rightarrow> (fault + error option \<times> 'e world) option" where
  "Subscribe lib k handler w =
     (let config = NewConfig lib;
          config = config\<lparr>Version := V1_0_0_0\<rparr>
      in case make_chan w of
           (ch, w) \<Rightarrow>
             (let cs = \<lparr>ready = Some ch, callback = handler\<rparr>;
                  w = emit (EvNewConsumerGroup (brokers k) (consumerGroup k) config) w
              in case NewConsumerGroup lib (brokers k) (consumerGroup k) config (ext w) of
                   (Inl err, e') \<Rightarrow> Some (Inr (Some err, w\<lparr>ext := e'\<rparr>))
                 | (Inr client, e') \<Rightarrow>
                     (case consume_loop lib client (topics k) cs (w\<lparr>ext := e', ctx_done := False\<rparr>) of
                        None \<Rightarrow> None
                      | Some (Inl f) \<Rightarrow> Some (Inl f)
                      | Some (Inr (cs', w)) \<Rightarrow>
                          if \<not> is_closed ch w then None
                          else (let w = emit (EvClose client) w in
                                case Close lib client (ext w) of
                                  (Some err, e') \<Rightarrow> Some (Inr (Some err, w\<lparr>ext := e'\<rparr>))
                                | (None, e') \<Rightarrow> Some (Inr (None, w\<lparr>ext := e'\<rparr>))))))"

section \<open>Reading the trace\<close>

text \<open>The records marked as processed and the callback invocations with their results,
  each in the order of occurrence.\<close>

definition marked :: "event list \<Rightarrow> ConsumerMessage list" where
  "marked t = concat (map (\<lambda>ev. case ev of EvMarkMessage m md \<Rightarrow> [m] | _ \<Rightarrow> []) t)"

definition callbacks :: "event list \<Rightarrow> (NewMessage \<times> error option) list" where
  "callbacks t = concat (map (\<lambda>ev. case ev of EvCallback msg r \<Rightarrow> [(msg, r)] | _ \<Rightarrow> []) t)"

text \<open>
  What the marks commit. The client library keeps one position for each partition, the
  offset at which delivery resumes after a restart or a rebalance, and this position is what
  it commits to the broker. \<^verbatim>\<open>MarkMessage\<close> of a record moves the position of the
  record's partition to one past the record's offset, unless the position is there or
  further already; it never moves back. (The specification's glossary: an offset commit
  records, per partition, the last successfully processed record position so that restarts
  resume after it.) For a trace \<open>t\<close> of the calls made for one partition and a position
  \<open>p\<close> before them, \<open>committed_position p t\<close> is the position after them, and a record
  is acknowledged, that is, not delivered again, when its offset is below that position.
\<close>

definition mark_position :: "int \<Rightarrow> ConsumerMessage \<Rightarrow> int" where
  "mark_position p m = max p (cm_Offset m + 1)"

definition committed_position :: "int \<Rightarrow> event list \<Rightarrow> int" where
  "committed_position p t = foldl mark_position p (marked t)"

definition acknowledged :: "int \<Rightarrow> event list \<Rightarrow> ConsumerMessage \<Rightarrow> bool" where
  "acknowledged p t m = (cm_Offset m < committed_position p t)"

text \<open>The events of one record whose callback invocation returned \<open>r\<close>.\<close>

definition record_events :: "string \<Rightarrow> ConsumerMessage \<Rightarrow> error option \<Rightarrow> event list" where
  "record_events topic m r =
     EvReceive m # EvCallback \<lparr>msg_Topic = topic, msg_Data = cm_Value m\<rparr> r #
       (if r = None then [EvMarkMessage m []] else [])"

text \<open>
  The results that a callback returns when it is invoked for the records of a claim one
  after the other, starting in the outside state \<open>e\<close>, and the outside state it leaves.
\<close>

fun callback_run ::
  "(NewMessage \<Rightarrow> 'e \<Rightarrow> error option \<times> 'e) \<Rightarrow> string \<Rightarrow> ConsumerMessage list \<Rightarrow> 'e
     \<Rightarrow> error option list \<times> 'e" where
  "callback_run cb topic [] e = ([], e)"
| "callback_run cb topic (m # ms) e =
     (case cb \<lparr>msg_Topic = topic, msg_Data = cm_Value m\<rparr> e of
        (r, e') \<Rightarrow> (case callback_run cb topic ms e' of (rs, e'') \<Rightarrow> (r # rs, e'')))"

section \<open>A fake client library\<close>

text \<open>
  A test double of the client library, in the manner of the fakes the specification asks
  for. Its outside state counts the sessions that have ended. The producer constructor, the
  send and the close operation fail with the errors given, if any. Every session runs
  \<^verbatim>\<open>Setup\<close>, one claim with the records given, and \<^verbatim>\<open>Cleanup\<close>. The first
  session ends with a rebalance error; the termination signal arrives during the second.
\<close>

definition default_Config :: Config where
  "default_Config =
     \<lparr>Version = (0, 8, 2, 0), Producer_RequiredAcks = 1, Producer_Retry_Max = 3,
      Producer_Return_Successes = False\<rparr>"

definition fake_Consume ::
  "ConsumerMessage list \<Rightarrow> ConsumerGroupClient \<Rightarrow> string list \<Rightarrow> nat consumer \<Rightarrow> nat world
     \<Rightarrow> fault + (error option \<times> nat world)" where
  "fake_Consume records client tps cs w =
     (case Setup cs w of
        Inl f \<Rightarrow> Inl f
      | Inr (_, w) \<Rightarrow>
          (case ConsumeClaim cs \<lparr>claim_Topic = concat (take 1 tps), claim_Messages = records\<rparr> w of
             (_, w) \<Rightarrow>
               (case Cleanup cs w of
                  (_, w) \<Rightarrow>
                    if ext w = 0 then Inr (Some (Error ''rebalance in progress''), w\<lparr>ext := 1\<rparr>)
                    else Inr (None, w\<lparr>ext := Suc (ext w), ctx_done := True\<rparr>))))"

definition fake_lib ::
  "error option \<Rightarrow> error option \<Rightarrow> error option \<Rightarrow> ConsumerMessage list \<Rightarrow> nat sarama" where
  "fake_lib new_err send_err close_err records =
     \<lparr>NewConfig = default_Config,
      NewSyncProducer = (\<lambda>bs c e. case new_err of
                                    Some err \<Rightarrow> (Inl err, e)
                                  | None \<Rightarrow> (Inr (SyncProducerHandle 7), e)),
      SendMessage = (\<lambda>p m e. ((0, 0, send_err), e)),
      NewConsumerGroup = (\<lambda>bs g c e. (Inr (ConsumerGroupHandle 3), e)),
      Consume = fake_Consume records,
      Close = (\<lambda>c e. (close_err, e))\<rparr>"

text \<open>
  A library whose producer constructor refuses every configuration but the one with
  \<^verbatim>\<open>WaitForAll\<close>, five retries and success results. Its outside state counts the
  producers constructed, and the handle of a producer is its number.
\<close>

definition strict_lib :: "nat sarama" where
  "strict_lib =
     (fake_lib None None None [])
       \<lparr>NewSyncProducer :=
          (\<lambda>bs c e.
             if Producer_RequiredAcks c = WaitForAll \<and> Producer_Retry_Max c = 5
                \<and> Producer_Return_Successes c
             then (Inr (SyncProducerHandle e), Suc e)
             else (Inl (Error ''configuration refused''), e))\<rparr>"

text \<open>A callback that rejects records with an empty payload.\<close>

definition fake_handler :: "NewMessage \<Rightarrow> nat \<Rightarrow> error option \<times> nat" where
  "fake_handler msg e =
     (if msg_Data msg = [] then (Some (Error ''empty payload''), e) else (None, e))"

definition world0 :: "nat world" where
  "world0 = \<lparr>chans = [], ctx_done = False, trace = [], ext = 0\<rparr>"

definition test_records :: "ConsumerMessage list" where
  "test_records =
     [\<lparr>cm_Offset = 0, cm_Value = [1]\<rparr>, \<lparr>cm_Offset = 1, cm_Value = []\<rparr>,
      \<lparr>cm_Offset = 2, cm_Value = [2, 3]\<rparr>]"

definition test_Kafka :: Kafka where
  "test_Kafka =
     \<lparr>producer = Some (SyncProducerHandle 7), topics = [''orders''], consumerGroup = ''g'',
      brokers = [''b:9092'']\<rparr>"

text \<open>The world in which the consume loop of a subscription of \<open>test_Kafka\<close> to the
  fake library exits, when the only record has an empty payload.\<close>

definition test_exit_world :: "nat world" where
  "test_exit_world =
     \<lparr>chans = [True, True], ctx_done = True,
      trace =
        [EvNewConsumerGroup [''b:9092''] ''g''
           \<lparr>Version = (1, 0, 0, 0), Producer_RequiredAcks = 1, Producer_Retry_Max = 3,
            Producer_Return_Successes = False\<rparr>,
         EvConsume (ConsumerGroupHandle 3) [''orders''],
         EvReceive \<lparr>cm_Offset = 1, cm_Value = []\<rparr>,
         EvCallback \<lparr>msg_Topic = ''orders'', msg_Data = []\<rparr> (Some (Error ''empty payload'')),
         EvLogError (Error ''rebalance in progress''),
         EvConsume (ConsumerGroupHandle 3) [''orders''],
         EvReceive \<lparr>cm_Offset = 1, cm_Value = []\<rparr>,
         EvCallback \<lparr>msg_Topic = ''orders'', msg_Data = []\<rparr> (Some (Error ''empty payload''))],
      ext = 2\<rparr>"

text \<open>The world in which that subscription ends, after the client has been closed.\<close>

definition test_final_world :: "nat world" where
  "test_final_world =
     \<lparr>chans = [True, True], ctx_done = True,
      trace =
        [EvNewConsumerGroup [''b:9092''] ''g''
           \<lparr>Version = (1, 0, 0, 0), Producer_RequiredAcks = 1, Producer_Retry_Max = 3,
            Producer_Return_Successes = False\<rparr>,
         EvConsume (ConsumerGroupHandle 3) [''orders''],
         EvReceive \<lparr>cm_Offset = 1, cm_Value = []\<rparr>,
         EvCallback \<lparr>msg_Topic = ''orders'', msg_Data = []\<rparr> (Some (Error ''empty payload'')),
         EvLogError (Error ''rebalance in progress''),
         EvConsume (ConsumerGroupHandle 3) [''orders''],
         EvReceive \<lparr>cm_Offset = 1, cm_Value = []\<rparr>,
         EvCallback \<lparr>msg_Topic = ''orders'', msg_Data = []\<rparr> (Some (Error ''empty payload'')),
         EvClose (ConsumerGroupHandle 3)],
      ext = 2\<rparr>"

definition test_Metadata :: Metadata where
  "test_Metadata =
     \<lparr>Properties = [''consumerGroup'' \<mapsto> ''a'', ''brokers'' \<mapsto> ''a'', ''topics'' \<mapsto> ''a'']\<rparr>"

section \<open>Properties of the configuration resolver\<close>

lemma Split_not_Nil: "Split s sep \<noteq> []"
  by (induction s) (auto split: list.splits)

lemma Split_no_sep: "sep \<notin> set s \<Longrightarrow> Split s sep = [s]"
  by (induction s) auto

lemma Split_append_sep:
  "sep \<notin> set u \<Longrightarrow> Split (u @ sep # s) sep = u # Split s sep"
  by (induction u) auto

text \<open>Splitting undoes joining, for a list that is not empty and whose elements are free
  of the separator.\<close>

lemma Split_Join:
  "\<forall>x\<in>set ws. sep \<notin> set x \<Longrightarrow> ws \<noteq> [] \<Longrightarrow> Split (Join ws sep) sep = ws"
proof (induction ws sep rule: Join.induct)
  case (1 sep)
  then show ?case by simp
next
  case (2 x sep)
  then show ?case by (simp add: Split_no_sep)
next
  case (3 x y ws sep)
  then show ?case by (simp add: Split_append_sep)
qed

lemma Join_Nil_iff: "Join ws sep = [] \<longleftrightarrow> ws = [] \<or> ws = [[]]"
  by (induction ws sep rule: Join.induct) auto

text \<open>Joining undoes splitting: no byte of the value is lost or reordered.\<close>

lemma Join_Split: "Join (Split s sep) sep = s"
proof (induction s)
  case Nil
  then show ?case by simp
next
  case (Cons c s)
  show ?case
  proof (cases "c = sep")
    case True
    with Cons Split_not_Nil[of s sep] show ?thesis by (cases "Split s sep") auto
  next
    case False
    with Cons Split_not_Nil[of s sep] show ?thesis
      by (cases "Split s sep"; cases "tl (Split s sep)") auto
  qed
qed

lemma getKafkaMetadata_Brokers:
  "Brokers (fst (getKafkaMetadata metadata)) =
     (case Properties metadata ''brokers'' of
        None \<Rightarrow> [] | Some val \<Rightarrow> if val = [] then [] else Split val CHR '','')"
  by (simp add: getKafkaMetadata_def kafkaMetadata_zero_def map_index_ok_def Let_def
      split: option.splits)

lemma getKafkaMetadata_Topics:
  "Topics (fst (getKafkaMetadata metadata)) =
     (case Properties metadata ''topics'' of
        None \<Rightarrow> [] | Some val \<Rightarrow> if val = [] then [] else Split val CHR '','')"
  by (simp add: getKafkaMetadata_def kafkaMetadata_zero_def map_index_ok_def Let_def
      split: option.splits)

lemma getKafkaMetadata_ConsumerGroup:
  "ConsumerGroup (fst (getKafkaMetadata metadata)) =
     (case Properties metadata ''consumerGroup'' of None \<Rightarrow> [] | Some val \<Rightarrow> val)"
  by (simp add: getKafkaMetadata_def kafkaMetadata_zero_def map_index_ok_def map_index_def
      Let_def split: option.splits)

lemma getKafkaMetadata_no_error: "snd (getKafkaMetadata metadata) = None"
  by (simp add: getKafkaMetadata_def Let_def)

lemma Split_elements: "x \<in> set (Split s sep) \<Longrightarrow> sep \<notin> set x"
proof (induction s arbitrary: x)
  case Nil
  then show ?case by simp
next
  case (Cons c s)
  then show ?case
    by (cases "Split s sep") (auto split: if_splits)
qed

lemma Split_not_single_empty: "s \<noteq> [] \<Longrightarrow> Split s sep \<noteq> [[]]"
  using Join_Split[of s sep] by (cases "Split s sep = [[]]") auto

text \<open>Every value is the joined form of a list of separator-free elements other than
  the list that holds only the empty string: the empty list for the empty value, and the
  split of the value otherwise.\<close>

lemma joined_form_exists:
  "\<exists>ws. v = Join ws sep \<and> (\<forall>x\<in>set ws. sep \<notin> set x) \<and> ws \<noteq> [[]]"
proof (cases "v = []")
  case True
  then show ?thesis by (intro exI[of _ "[]"]) simp
next
  case False
  then show ?thesis
    by (intro exI[of _ "Split v sep"])
       (simp add: Join_Split Split_elements Split_not_single_empty)
qed

lemma resolve_joined:
  assumes "\<forall>x\<in>set ws. CHR '','' \<notin> set x" and "ws \<noteq> [[]]"
  shows "(if Join ws CHR '','' = [] then [] else Split (Join ws CHR '','') CHR '','') = ws"
  using assms by (auto simp: Join_Nil_iff Split_Join)

text \<open>
  Claim C6. When \<open>brokers\<close> and \<open>topics\<close> are present as comma-joined strings, that is,
  each value is a list of comma-free elements joined with \<open>,\<close>, the resolver returns
  exactly those elements in their order, together with the consumer group unchanged and no
  error. A value of a single element gives the one-element list. No value is left out:
  by \<open>joined_form_exists\<close> every string is the joined form of such a list. Only the
  reading of the empty value as the list that holds the empty string is set aside; the
  resolver reads the empty value as the empty list (claim C7).
\<close>

theorem getKafkaMetadata_splits:
  assumes "Properties metadata ''brokers'' = Some (Join bs CHR '','')"
    and "Properties metadata ''topics'' = Some (Join ts CHR '','')"
    and "\<forall>b\<in>set bs. CHR '','' \<notin> set b" and "bs \<noteq> [[]]"
    and "\<forall>t\<in>set ts. CHR '','' \<notin> set t" and "ts \<noteq> [[]]"
  shows "Brokers (fst (getKafkaMetadata metadata)) = bs
       \<and> Topics (fst (getKafkaMetadata metadata)) = ts
       \<and> ConsumerGroup (fst (getKafkaMetadata metadata)) =
           (case Properties metadata ''consumerGroup'' of None \<Rightarrow> [] | Some g \<Rightarrow> g)
       \<and> snd (getKafkaMetadata metadata) = None"
  using assms
  by (simp add: getKafkaMetadata_Brokers getKafkaMetadata_Topics getKafkaMetadata_no_error
      getKafkaMetadata_ConsumerGroup resolve_joined)

text \<open>The scenario of the repository's test: every property is \<open>a\<close>.\<close>

theorem getKafkaMetadata_splits_witness:
  "Properties test_Metadata ''brokers'' = Some (Join [''a''] CHR '','')
   \<and> Properties test_Metadata ''topics'' = Some (Join [''a''] CHR '','')
   \<and> Brokers (fst (getKafkaMetadata test_Metadata)) = [''a'']
   \<and> Brokers (fst (getKafkaMetadata test_Metadata)) ! 0 = ''a''
   \<and> ConsumerGroup (fst (getKafkaMetadata test_Metadata)) = ''a''
   \<and> Topics (fst (getKafkaMetadata test_Metadata)) ! 0 = ''a''
   \<and> snd (getKafkaMetadata test_Metadata) = None"
  using getKafkaMetadata_splits [of test_Metadata "[''a'']" "[''a'']"]
  by (simp add: test_Metadata_def)

text \<open>
  Claim C7. The resolver never returns an error. A missing \<open>brokers\<close> or \<open>topics\<close> key,
  or one that maps to the empty string, gives the empty list; a missing
  \<open>consumerGroup\<close> key gives the empty string.
\<close>

theorem getKafkaMetadata_never_fails:
  "snd (getKafkaMetadata metadata) = None
   \<and> (Properties metadata ''brokers'' = None \<or> Properties metadata ''brokers'' = Some []
        \<longrightarrow> Brokers (fst (getKafkaMetadata metadata)) = [])
   \<and> (Properties metadata ''topics'' = None \<or> Properties metadata ''topics'' = Some []
        \<longrightarrow> Topics (fst (getKafkaMetadata metadata)) = [])
   \<and> (Properties metadata ''consumerGroup'' = None
        \<longrightarrow> ConsumerGroup (fst (getKafkaMetadata metadata)) = [])"
  by (simp add: getKafkaMetadata_Brokers getKafkaMetadata_Topics getKafkaMetadata_no_error
      getKafkaMetadata_ConsumerGroup split: option.splits)

theorem getKafkaMetadata_never_fails_witness:
  "Properties \<lparr>Properties = Map.empty\<rparr> ''brokers'' = None
   \<and> Properties \<lparr>Properties = Map.empty\<rparr> ''topics'' = None
   \<and> Properties \<lparr>Properties = Map.empty\<rparr> ''consumerGroup'' = None
   \<and> getKafkaMetadata \<lparr>Properties = Map.empty\<rparr> =
       (\<lparr>Brokers = [], Topics = [], PublishTopic = [], ConsumerGroup = []\<rparr>, None)
   \<and> Properties \<lparr>Properties = [''brokers'' \<mapsto> [], ''topics'' \<mapsto> []]\<rparr> ''brokers'' = Some []
   \<and> Properties \<lparr>Properties = [''brokers'' \<mapsto> [], ''topics'' \<mapsto> []]\<rparr> ''topics'' = Some []
   \<and> Brokers (fst (getKafkaMetadata \<lparr>Properties = [''brokers'' \<mapsto> [], ''topics'' \<mapsto> []]\<rparr>)) = []
   \<and> Topics (fst (getKafkaMetadata \<lparr>Properties = [''brokers'' \<mapsto> [], ''topics'' \<mapsto> []]\<rparr>)) = []"
proof -
  have a: "fst (getKafkaMetadata \<lparr>Properties = Map.empty\<rparr>) =
      \<lparr>Brokers = Brokers (fst (getKafkaMetadata \<lparr>Properties = Map.empty\<rparr>)),
       Topics = Topics (fst (getKafkaMetadata \<lparr>Properties = Map.empty\<rparr>)),
       PublishTopic = [],
       ConsumerGroup = ConsumerGroup (fst (getKafkaMetadata \<lparr>Properties = Map.empty\<rparr>))\<rparr>"
    by (simp add: getKafkaMetadata_def kafkaMetadata_zero_def map_index_ok_def map_index_def)
  have b: "getKafkaMetadata \<lparr>Properties = Map.empty\<rparr> =
       (\<lparr>Brokers = [], Topics = [], PublishTopic = [], ConsumerGroup = []\<rparr>, None)"
    using getKafkaMetadata_never_fails [of "\<lparr>Properties = Map.empty\<rparr>"] a
    by (simp add: prod_eq_iff)
  show ?thesis
    using b getKafkaMetadata_never_fails
            [of "\<lparr>Properties = [''brokers'' \<mapsto> [], ''topics'' \<mapsto> []]\<rparr>"]
    by simp
qed

section \<open>Properties of the session handler\<close>

lemma marked_Nil: "marked [] = []"
  by (simp add: marked_def)

lemma marked_append: "marked (t @ u) = marked t @ marked u"
  by (simp add: marked_def)

lemma callbacks_Nil: "callbacks [] = []"
  by (simp add: callbacks_def)

lemma callbacks_append: "callbacks (t @ u) = callbacks t @ callbacks u"
  by (simp add: callbacks_def)

lemma marked_record_events:
  "marked (record_events topic m r) = (if r = None then [m] else [])"
  by (simp add: marked_def record_events_def)

lemma callbacks_record_events:
  "callbacks (record_events topic m r) = [(\<lparr>msg_Topic = topic, msg_Data = cm_Value m\<rparr>, r)]"
  by (simp add: callbacks_def record_events_def)

text \<open>One record, with a callback registered: the record is received, the callback is
  invoked with the claim's topic and the record's payload, and the record is marked exactly
  when the callback returned nil.\<close>

lemma consume_message_callback:
  assumes "callback cs = Some cb"
    and "cb \<lparr>msg_Topic = topic, msg_Data = cm_Value m\<rparr> (ext w) = (r, e')"
  shows "consume_message cs topic m w =
           w\<lparr>trace := trace w @ record_events topic m r, ext := e'\<rparr>"
  using assms
  by (auto simp: consume_message_def emit_def MarkMessage_def record_events_def Let_def)

lemma length_callback_run: "length (fst (callback_run cb topic ms e)) = length ms"
proof (induction ms arbitrary: e)
  case Nil
  show ?case by simp
next
  case (Cons m ms)
  obtain r e1 where cb: "cb \<lparr>msg_Topic = topic, msg_Data = cm_Value m\<rparr> e = (r, e1)"
    by (cases "cb \<lparr>msg_Topic = topic, msg_Data = cm_Value m\<rparr> e")
  obtain rs e2 where run: "callback_run cb topic ms e1 = (rs, e2)"
    by (cases "callback_run cb topic ms e1")
  have "length rs = length ms"
    using Cons.IH[of e1] run by simp
  then show ?case by (simp add: cb run)
qed

lemma range_Messages_callback:
  assumes "callback cs = Some cb"
  shows "range_Messages cs topic ms w =
           w\<lparr>trace := trace w @
                 concat (map2 (record_events topic) ms (fst (callback_run cb topic ms (ext w)))),
             ext := snd (callback_run cb topic ms (ext w))\<rparr>"
proof (induction ms arbitrary: w)
  case Nil
  show ?case by simp
next
  case (Cons m ms)
  obtain r e1 where cb: "cb \<lparr>msg_Topic = topic, msg_Data = cm_Value m\<rparr> (ext w) = (r, e1)"
    by (cases "cb \<lparr>msg_Topic = topic, msg_Data = cm_Value m\<rparr> (ext w)")
  obtain rs e2 where run: "callback_run cb topic ms e1 = (rs, e2)"
    by (cases "callback_run cb topic ms e1")
  have step: "consume_message cs topic m w =
      w\<lparr>trace := trace w @ record_events topic m r, ext := e1\<rparr>"
    using consume_message_callback[OF assms cb] .
  show ?case
    by (simp add: Cons.IH step cb run)
qed

lemma marked_concat_record_events:
  "length rs = length ms \<Longrightarrow>
   marked (concat (map2 (record_events topic) ms rs)) =
     map fst (filter (\<lambda>(m, r). r = None) (zip ms rs))"
  by (induction rs ms rule: list_induct2)
     (simp_all add: marked_append marked_record_events marked_Nil)

lemma callbacks_concat_record_events:
  "length rs = length ms \<Longrightarrow>
   callbacks (concat (map2 (record_events topic) ms rs)) =
     zip (map (\<lambda>m. \<lparr>msg_Topic = topic, msg_Data = cm_Value m\<rparr>) ms) rs"
  by (induction rs ms rule: list_induct2)
     (simp_all add: callbacks_append callbacks_record_events callbacks_Nil)

lemma range_Messages_nil_callback:
  "callback cs = None \<Longrightarrow>
   range_Messages cs topic ms w = w\<lparr>trace := trace w @ map EvReceive ms\<rparr>"
  by (induction ms arbitrary: w) (simp_all add: consume_message_def emit_def)

text \<open>
  The calls of \<^verbatim>\<open>ConsumeClaim\<close>. With a callback registered, it is invoked once for
  every record delivered, in order, with the claim's topic and the record's payload. Writing
  \<open>rs\<close> for the results of these invocations, \<^verbatim>\<open>MarkMessage\<close> is called for exactly
  the records whose invocation returned nil, right after that invocation, and for no record
  whose invocation returned an error. \<^verbatim>\<open>ConsumeClaim\<close> itself returns nil.
\<close>

lemma ConsumeClaim_marks_iff_callback_succeeds:
  assumes "callback cs = Some cb"
    and "rs = fst (callback_run cb (claim_Topic claim) (claim_Messages claim) (ext w))"
  shows "fst (ConsumeClaim cs claim w) = None
     \<and> trace (snd (ConsumeClaim cs claim w)) =
         trace w @ concat (map2 (record_events (claim_Topic claim)) (claim_Messages claim) rs)
     \<and> callbacks (trace (snd (ConsumeClaim cs claim w))) =
         callbacks (trace w) @
           zip (map (\<lambda>m. \<lparr>msg_Topic = claim_Topic claim, msg_Data = cm_Value m\<rparr>)
                  (claim_Messages claim)) rs
     \<and> marked (trace (snd (ConsumeClaim cs claim w))) =
         marked (trace w) @ map fst (filter (\<lambda>(m, r). r = None) (zip (claim_Messages claim) rs))"
proof -
  have len: "length rs = length (claim_Messages claim)"
    using assms(2) by (simp add: length_callback_run)
  have run: "snd (ConsumeClaim cs claim w) =
      w\<lparr>trace := trace w @ concat (map2 (record_events (claim_Topic claim)) (claim_Messages claim) rs),
        ext := snd (callback_run cb (claim_Topic claim) (claim_Messages claim) (ext w))\<rparr>"
    using assms(2) by (simp add: ConsumeClaim_def range_Messages_callback[OF assms(1)])
  show ?thesis
    using len
    by (simp add: run marked_append callbacks_append
          marked_concat_record_events callbacks_concat_record_events)
       (simp add: ConsumeClaim_def)
qed

text \<open>The position only moves forward, and it lies beyond every record that has been
  marked.\<close>

lemma foldl_mark_position_ge: "p \<le> foldl mark_position p ms"
proof (induction ms arbitrary: p)
  case Nil
  show ?case by simp
next
  case (Cons m ms)
  have "p \<le> mark_position p m" by (simp add: mark_position_def)
  also have "\<dots> \<le> foldl mark_position (mark_position p m) ms" by (rule Cons.IH)
  finally show ?case by simp
qed

lemma foldl_mark_position_mem:
  "m \<in> set ms \<Longrightarrow> cm_Offset m < foldl mark_position p ms"
proof (induction ms arbitrary: p)
  case Nil
  then show ?case by simp
next
  case (Cons x ms)
  show ?case
  proof (cases "m = x")
    case True
    have "cm_Offset m < mark_position p x" using True by (simp add: mark_position_def)
    also have "\<dots> \<le> foldl mark_position (mark_position p x) ms"
      by (rule foldl_mark_position_ge)
    finally show ?thesis by simp
  next
    case False
    with Cons.prems have "m \<in> set ms" by simp
    from Cons.IH[OF this] show ?thesis by simp
  qed
qed

lemma committed_position_append:
  "committed_position p (t @ u) = committed_position (committed_position p t) u"
  by (simp add: committed_position_def marked_append)

text \<open>
  A record of the claim is acknowledged as soon as a record of the claim with the same or a
  larger offset has been processed with success, whatever its own callback returned.
\<close>

lemma later_success_acknowledges:
  assumes "callback cs = Some cb"
    and "rs = fst (callback_run cb (claim_Topic claim) (claim_Messages claim) (ext w))"
    and "(m', None) \<in> set (zip (claim_Messages claim) rs)"
    and "cm_Offset m \<le> cm_Offset m'"
  shows "acknowledged p (trace (snd (ConsumeClaim cs claim w))) m"
proof -
  have mk: "marked (trace (snd (ConsumeClaim cs claim w))) =
      marked (trace w) @ map fst (filter (\<lambda>(m, r). r = None) (zip (claim_Messages claim) rs))"
    using ConsumeClaim_marks_iff_callback_succeeds
      [OF assms(1,2), THEN conjunct2, THEN conjunct2, THEN conjunct2] .
  have "m' \<in> set (map fst (filter (\<lambda>(m, r). r = None) (zip (claim_Messages claim) rs)))"
    using assms(3) by force
  then have "m' \<in> set (marked (trace (snd (ConsumeClaim cs claim w))))"
    by (simp add: mk)
  then have "cm_Offset m' < committed_position p (trace (snd (ConsumeClaim cs claim w)))"
    unfolding committed_position_def by (rule foldl_mark_position_mem)
  with assms(4) show ?thesis by (simp add: acknowledged_def)
qed

text \<open>
  Claim C1: the offset of a record is committed if and only if the callback was invoked
  for it and returned success, and it is not committed when the callback returned an error.
  The code does not keep this. \<^verbatim>\<open>ConsumeClaim\<close> goes on after a callback that failed
  and marks the records that follow, and a mark moves the committed position past every
  earlier record of the partition. For three records at the offsets 0, 1 and 2, of which
  the callback rejects the second, the calls are the ones the claim asks for, marks for the
  first and the third record only; yet the committed position becomes 3, and the record at
  offset 1 is acknowledged although its callback returned an error.
\<close>

theorem ConsumeClaim_acknowledges_failed_record:
  "callbacks (trace (snd (ConsumeClaim \<lparr>ready = None, callback = Some fake_handler\<rparr>
        \<lparr>claim_Topic = ''orders'', claim_Messages = test_records\<rparr> world0))) =
       [(\<lparr>msg_Topic = ''orders'', msg_Data = [1]\<rparr>, None),
        (\<lparr>msg_Topic = ''orders'', msg_Data = []\<rparr>, Some (Error ''empty payload'')),
        (\<lparr>msg_Topic = ''orders'', msg_Data = [2, 3]\<rparr>, None)]
   \<and> marked (trace (snd (ConsumeClaim \<lparr>ready = None, callback = Some fake_handler\<rparr>
        \<lparr>claim_Topic = ''orders'', claim_Messages = test_records\<rparr> world0))) =
       [\<lparr>cm_Offset = 0, cm_Value = [1]\<rparr>, \<lparr>cm_Offset = 2, cm_Value = [2, 3]\<rparr>]
   \<and> committed_position 0 (trace (snd (ConsumeClaim \<lparr>ready = None, callback = Some fake_handler\<rparr>
        \<lparr>claim_Topic = ''orders'', claim_Messages = test_records\<rparr> world0))) = 3
   \<and> acknowledged 0 (trace (snd (ConsumeClaim \<lparr>ready = None, callback = Some fake_handler\<rparr>
        \<lparr>claim_Topic = ''orders'', claim_Messages = test_records\<rparr> world0)))
        \<lparr>cm_Offset = 1, cm_Value = []\<rparr>"
proof -
  let ?t = "trace (snd (ConsumeClaim \<lparr>ready = None, callback = Some fake_handler\<rparr>
        \<lparr>claim_Topic = ''orders'', claim_Messages = test_records\<rparr> world0))"
  have t: "?t =
      [EvReceive \<lparr>cm_Offset = 0, cm_Value = [1]\<rparr>,
       EvCallback \<lparr>msg_Topic = ''orders'', msg_Data = [1]\<rparr> None,
       EvMarkMessage \<lparr>cm_Offset = 0, cm_Value = [1]\<rparr> [],
       EvReceive \<lparr>cm_Offset = 1, cm_Value = []\<rparr>,
       EvCallback \<lparr>msg_Topic = ''orders'', msg_Data = []\<rparr> (Some (Error ''empty payload'')),
       EvReceive \<lparr>cm_Offset = 2, cm_Value = [2, 3]\<rparr>,
       EvCallback \<lparr>msg_Topic = ''orders'', msg_Data = [2, 3]\<rparr> None,
       EvMarkMessage \<lparr>cm_Offset = 2, cm_Value = [2, 3]\<rparr> []]"
    by (simp add: ConsumeClaim_def test_records_def consume_message_def fake_handler_def
        world0_def emit_def MarkMessage_def)
  show ?thesis
    unfolding t
    by (simp add: callbacks_def marked_def committed_position_def acknowledged_def
        mark_position_def)
qed

text \<open>
  Claim C10. With a nil callback, \<^verbatim>\<open>ConsumeClaim\<close> receives every record of the claim
  and does nothing else: no callback is invoked, no record is marked, no fault is raised,
  and the result is nil.
\<close>

theorem ConsumeClaim_nil_callback:
  assumes "callback cs = None"
  shows "ConsumeClaim cs claim w =
           (None, w\<lparr>trace := trace w @ map EvReceive (claim_Messages claim)\<rparr>)"
  using assms by (simp add: ConsumeClaim_def range_Messages_nil_callback)

theorem ConsumeClaim_nil_callback_witness:
  "callback \<lparr>ready = None, callback = None\<rparr> = None
   \<and> ConsumeClaim \<lparr>ready = None, callback = None\<rparr>
        \<lparr>claim_Topic = ''orders'', claim_Messages = test_records\<rparr> world0 =
       (None,
        \<lparr>chans = [], ctx_done = False,
         trace = [EvReceive \<lparr>cm_Offset = 0, cm_Value = [1]\<rparr>,
                  EvReceive \<lparr>cm_Offset = 1, cm_Value = []\<rparr>,
                  EvReceive \<lparr>cm_Offset = 2, cm_Value = [2, 3]\<rparr>],
         ext = 0\<rparr>)
   \<and> marked (trace (snd (ConsumeClaim \<lparr>ready = None, callback = None\<rparr>
        \<lparr>claim_Topic = ''orders'', claim_Messages = test_records\<rparr> world0))) = []
   \<and> callbacks (trace (snd (ConsumeClaim \<lparr>ready = None, callback = None\<rparr>
        \<lparr>claim_Topic = ''orders'', claim_Messages = test_records\<rparr> world0))) = []"
  using ConsumeClaim_nil_callback
    [of "\<lparr>ready = None, callback = None\<rparr>"
        "\<lparr>claim_Topic = ''orders'', claim_Messages = test_records\<rparr>" world0]
  by (simp add: test_records_def world0_def marked_def callbacks_def)

lemma Setup_open:
  assumes "ready cs = Some ch" and "ch < length (chans w)" and "\<not> is_closed ch w"
  shows "Setup cs w = Inr (None, w\<lparr>chans := (chans w)[ch := True]\<rparr>)"
  using assms by (simp add: Setup_def close_chan_def)

lemma Setup_closed:
  assumes "ready cs = Some ch" and "is_closed ch w"
  shows "Setup cs w = Inl CloseOfClosedChannel"
  using assms by (simp add: Setup_def close_chan_def)

text \<open>
  Claim C2, as stated, does not hold: \<^verbatim>\<open>Setup\<close> closes the ready channel without any
  guard, so a second call on the same consumer, whose channel the first call has closed,
  panics instead of doing nothing.
\<close>

theorem Setup_twice_counterexample:
  "Setup \<lparr>ready = Some 0, callback = None\<rparr>
      \<lparr>chans = [False], ctx_done = False, trace = [], ext = ()\<rparr>
     = Inr (None, \<lparr>chans = [True], ctx_done = False, trace = [], ext = ()\<rparr>)
   \<and> Setup \<lparr>ready = Some 0, callback = None\<rparr>
      \<lparr>chans = [True], ctx_done = False, trace = [], ext = ()\<rparr>
     = Inl CloseOfClosedChannel"
  by (simp add: Setup_def close_chan_def is_closed_def)

text \<open>
  Claim C2, amended. A \<^verbatim>\<open>Setup\<close> call on a consumer whose ready gate is still
  unreleased releases the gate and returns nil. \<^verbatim>\<open>Setup\<close> is not idempotent: a call
  on a consumer whose gate has been released already faults (closing a closed channel),
  and so does the second of two calls on the same gate. A further call is safe once the
  gate has been replaced by a fresh one, which is what the consume loop does after each
  return of \<^verbatim>\<open>Consume\<close>.
\<close>

theorem Setup_releases_gate_once:
  assumes "ready cs = Some ch" and "ch < length (chans w)"
  shows "(\<not> is_closed ch w \<longrightarrow>
            Setup cs w = Inr (None, w\<lparr>chans := (chans w)[ch := True]\<rparr>)
          \<and> is_closed ch (w\<lparr>chans := (chans w)[ch := True]\<rparr>)
          \<and> Setup cs (w\<lparr>chans := (chans w)[ch := True]\<rparr>) = Inl CloseOfClosedChannel)
       \<and> (is_closed ch w \<longrightarrow> Setup cs w = Inl CloseOfClosedChannel)
       \<and> (\<exists>w'. Setup (cs\<lparr>ready := Some (fst (make_chan w))\<rparr>) (snd (make_chan w)) = Inr (None, w')
               \<and> is_closed (fst (make_chan w)) w')"
proof (intro conjI impI)
  assume "\<not> is_closed ch w"
  with assms show "Setup cs w = Inr (None, w\<lparr>chans := (chans w)[ch := True]\<rparr>)"
    by (simp add: Setup_open)
  from assms show c: "is_closed ch (w\<lparr>chans := (chans w)[ch := True]\<rparr>)"
    by (simp add: is_closed_def)
  from assms(1) c show "Setup cs (w\<lparr>chans := (chans w)[ch := True]\<rparr>) = Inl CloseOfClosedChannel"
    by (rule Setup_closed)
next
  assume "is_closed ch w"
  with assms(1) show "Setup cs w = Inl CloseOfClosedChannel" by (rule Setup_closed)
next
  show "\<exists>w'. Setup (cs\<lparr>ready := Some (fst (make_chan w))\<rparr>) (snd (make_chan w)) = Inr (None, w')
               \<and> is_closed (fst (make_chan w)) w'"
    by (simp add: Setup_def close_chan_def is_closed_def make_chan_def)
qed

theorem Setup_releases_gate_once_witness:
  "ready \<lparr>ready = Some 0, callback = Some fake_handler\<rparr> = Some 0
   \<and> (0::nat) < length (chans (world0\<lparr>chans := [False]\<rparr>))
   \<and> \<not> is_closed 0 (world0\<lparr>chans := [False]\<rparr>)
   \<and> Setup \<lparr>ready = Some 0, callback = Some fake_handler\<rparr> (world0\<lparr>chans := [False]\<rparr>) =
       Inr (None, world0\<lparr>chans := [True]\<rparr>)
   \<and> is_closed 0 (world0\<lparr>chans := [True]\<rparr>)
   \<and> Setup \<lparr>ready = Some 0, callback = Some fake_handler\<rparr> (world0\<lparr>chans := [True]\<rparr>) =
       Inl CloseOfClosedChannel"
proof -
  let ?cs = "\<lparr>ready = Some 0, callback = Some fake_handler\<rparr>"
  have h1: "ready ?cs = Some 0" by simp
  have h2: "(0::nat) < length (chans (world0\<lparr>chans := [False]\<rparr>))" by simp
  have h3: "(0::nat) < length (chans (world0\<lparr>chans := [True]\<rparr>))" by simp
  have o: "\<not> is_closed 0 (world0\<lparr>chans := [False]\<rparr>)" by (simp add: is_closed_def)
  have c: "is_closed 0 (world0\<lparr>chans := [True]\<rparr>)" by (simp add: is_closed_def)
  have a: "Setup ?cs (world0\<lparr>chans := [False]\<rparr>) = Inr (None, world0\<lparr>chans := [True]\<rparr>)"
    using Setup_releases_gate_once [OF h1 h2] o by simp
  have b: "Setup ?cs (world0\<lparr>chans := [True]\<rparr>) = Inl CloseOfClosedChannel"
    using Setup_releases_gate_once [OF h1 h3] c by simp
  show ?thesis using h1 h2 o c a b by simp
qed

section \<open>Properties of the producer path\<close>

lemma getSyncProducer_run:
  "NewSyncProducer lib (Brokers meta)
      ((NewConfig lib)\<lparr>Producer_RequiredAcks := WaitForAll, Producer_Retry_Max := 5,
                       Producer_Return_Successes := True\<rparr>) (ext w) = (r, e')
   \<Longrightarrow> getSyncProducer lib meta w =
      (r, w\<lparr>trace := trace w @ [EvNewSyncProducer (Brokers meta)
              ((NewConfig lib)\<lparr>Producer_RequiredAcks := WaitForAll, Producer_Retry_Max := 5,
                       Producer_Return_Successes := True\<rparr>)], ext := e'\<rparr>)"
  by (cases r) (simp_all add: getSyncProducer_def emit_def Let_def)

text \<open>The resolver never fails, so \<^verbatim>\<open>Init\<close> always reaches the construction of the
  producer.\<close>

lemma Init_unfold:
  "Init lib k metadata w =
     (case getSyncProducer lib (fst (getKafkaMetadata metadata)) w of
        (Inl err, w') \<Rightarrow> (Some err, k, w')
      | (Inr p, w') \<Rightarrow>
          (None,
           k\<lparr>brokers := Brokers (fst (getKafkaMetadata metadata)), producer := Some p,
             topics := Topics (fst (getKafkaMetadata metadata)),
             consumerGroup := ConsumerGroup (fst (getKafkaMetadata metadata))\<rparr>,
           w'))"
proof -
  obtain meta where m: "getKafkaMetadata metadata = (meta, None)"
    by (simp add: getKafkaMetadata_def Let_def)
  show ?thesis
    by (cases "getSyncProducer lib meta w") (simp add: Init_def Init_body_def m split: sum.splits)
qed

text \<open>
  Claim C3. On an initialised adapter, \<^verbatim>\<open>Publish\<close> makes exactly one call into the
  client library, a \<^verbatim>\<open>SendMessage\<close> on the adapter's producer that carries the
  request's topic and data, and returns the error result of that call as it is: nil when
  the send succeeded, the same error value when it failed.
\<close>

theorem Publish_sends_once:
  assumes "producer k = Some p"
    and "SendMessage lib p \<lparr>pm_Topic = req_Topic req, pm_Value = req_Data req\<rparr> (ext w) =
           ((pt, off, err), e')"
  shows "Publish lib k req w =
           Inr (err,
                w\<lparr>trace := trace w @
                     [EvSendMessage p \<lparr>pm_Topic = req_Topic req, pm_Value = req_Data req\<rparr>],
                  ext := e'\<rparr>)"
  using assms by (simp add: Publish_def emit_def Let_def split: option.splits)

text \<open>The scenario of the specification: topic \<open>orders\<close>, data \<open>[1, 2, 3]\<close>, against a
  producer that always acknowledges; and the same request against one that fails.\<close>

theorem Publish_sends_once_witness:
  "producer test_Kafka = Some (SyncProducerHandle 7)
   \<and> Publish (fake_lib None None None []) test_Kafka
        \<lparr>req_Topic = ''orders'', req_Data = [1, 2, 3]\<rparr> world0 =
       Inr (None,
            \<lparr>chans = [], ctx_done = False,
             trace = [EvSendMessage (SyncProducerHandle 7)
                        \<lparr>pm_Topic = ''orders'', pm_Value = [1, 2, 3]\<rparr>],
             ext = 0\<rparr>)
   \<and> Publish (fake_lib None (Some (Error ''timed out'')) None []) test_Kafka
        \<lparr>req_Topic = ''orders'', req_Data = [1, 2, 3]\<rparr> world0 =
       Inr (Some (Error ''timed out''),
            \<lparr>chans = [], ctx_done = False,
             trace = [EvSendMessage (SyncProducerHandle 7)
                        \<lparr>pm_Topic = ''orders'', pm_Value = [1, 2, 3]\<rparr>],
             ext = 0\<rparr>)"
proof -
  let ?req = "\<lparr>req_Topic = ''orders'', req_Data = [1, 2, 3]\<rparr>"
  have h: "producer test_Kafka = Some (SyncProducerHandle 7)"
    by (simp add: test_Kafka_def)
  have s1: "SendMessage (fake_lib None None None []) (SyncProducerHandle 7)
      \<lparr>pm_Topic = req_Topic ?req, pm_Value = req_Data ?req\<rparr> (ext world0) = ((0, 0, None), 0)"
    by (simp add: fake_lib_def world0_def)
  have s2: "SendMessage (fake_lib None (Some (Error ''timed out'')) None []) (SyncProducerHandle 7)
      \<lparr>pm_Topic = req_Topic ?req, pm_Value = req_Data ?req\<rparr> (ext world0) =
      ((0, 0, Some (Error ''timed out'')), 0)"
    by (simp add: fake_lib_def world0_def)
  show ?thesis
    using h Publish_sends_once [OF h s1] Publish_sends_once [OF h s2]
    by (simp add: world0_def)
qed

text \<open>
  Claim C8. Let the library's producer constructor, given the resolved brokers and the
  library's default configuration with \<^verbatim>\<open>RequiredAcks = WaitForAll\<close>,
  \<^verbatim>\<open>Retry.Max = 5\<close> and \<^verbatim>\<open>Return.Successes = true\<close>, answer \<open>res\<close> and leave the
  outside state \<open>e'\<close>. Then \<^verbatim>\<open>Init\<close> is that one call and nothing else: its world is
  the world before with this one call recorded and the outside state \<open>e'\<close>, its error is
  the error of \<open>res\<close>, and on success the adapter keeps the producer of \<open>res\<close>.
  \<^verbatim>\<open>Publish\<close> constructs nothing: it is the one \<^verbatim>\<open>SendMessage\<close> on the producer
  the adapter holds, and a fault when the adapter holds none.
\<close>

theorem producer_constructed_once_by_Init:
  assumes "NewSyncProducer lib (Brokers (fst (getKafkaMetadata metadata)))
             ((NewConfig lib)\<lparr>Producer_RequiredAcks := WaitForAll, Producer_Retry_Max := 5,
                              Producer_Return_Successes := True\<rparr>) (ext w) = (res, e')"
    and "w' = w\<lparr>trace := trace w @
                  [EvNewSyncProducer (Brokers (fst (getKafkaMetadata metadata)))
                     ((NewConfig lib)\<lparr>Producer_RequiredAcks := WaitForAll, Producer_Retry_Max := 5,
                                      Producer_Return_Successes := True\<rparr>)],
               ext := e'\<rparr>"
  shows "Init lib k metadata w =
           (case res of
              Inl err \<Rightarrow> (Some err, k, w')
            | Inr p \<Rightarrow>
                (None,
                 k\<lparr>brokers := Brokers (fst (getKafkaMetadata metadata)), producer := Some p,
                   topics := Topics (fst (getKafkaMetadata metadata)),
                   consumerGroup := ConsumerGroup (fst (getKafkaMetadata metadata))\<rparr>,
                 w'))
       \<and> (producer k' = None \<longrightarrow> Publish lib k' req v = Inl NilDereference)
       \<and> (\<forall>p pt off err e''.
            producer k' = Some p
            \<and> SendMessage lib p \<lparr>pm_Topic = req_Topic req, pm_Value = req_Data req\<rparr> (ext v) =
                ((pt, off, err), e'')
            \<longrightarrow> Publish lib k' req v =
                  Inr (err,
                       v\<lparr>trace := trace v @
                            [EvSendMessage p \<lparr>pm_Topic = req_Topic req, pm_Value = req_Data req\<rparr>],
                         ext := e''\<rparr>))"
proof (intro conjI allI impI)
  have g: "getSyncProducer lib (fst (getKafkaMetadata metadata)) w = (res, w')"
    using getSyncProducer_run[OF assms(1)] assms(2) by simp
  show "Init lib k metadata w =
           (case res of
              Inl err \<Rightarrow> (Some err, k, w')
            | Inr p \<Rightarrow>
                (None,
                 k\<lparr>brokers := Brokers (fst (getKafkaMetadata metadata)), producer := Some p,
                   topics := Topics (fst (getKafkaMetadata metadata)),
                   consumerGroup := ConsumerGroup (fst (getKafkaMetadata metadata))\<rparr>,
                 w'))"
    by (cases res) (simp_all add: Init_unfold g)
next
  assume "producer k' = None"
  then show "Publish lib k' req v = Inl NilDereference"
    by (simp add: Publish_def)
next
  fix p pt off err e''
  assume "producer k' = Some p
            \<and> SendMessage lib p \<lparr>pm_Topic = req_Topic req, pm_Value = req_Data req\<rparr> (ext v) =
                ((pt, off, err), e'')"
  then show "Publish lib k' req v =
                  Inr (err,
                       v\<lparr>trace := trace v @
                            [EvSendMessage p \<lparr>pm_Topic = req_Topic req, pm_Value = req_Data req\<rparr>],
                         ext := e''\<rparr>)"
    by (simp add: Publish_def emit_def Let_def split: option.splits)
qed

text \<open>The strict library accepts the configuration that \<^verbatim>\<open>Init\<close> builds and
  refuses its own default. Initialisation of a new adapter constructs producer number 0
  and leaves the count at one; a publish through that adapter leaves the count at one.\<close>

theorem producer_constructed_once_by_Init_witness:
  "NewSyncProducer strict_lib (Brokers (fst (getKafkaMetadata test_Metadata)))
      ((NewConfig strict_lib)\<lparr>Producer_RequiredAcks := WaitForAll, Producer_Retry_Max := 5,
                              Producer_Return_Successes := True\<rparr>) (ext world0)
     = (Inr (SyncProducerHandle 0), 1)
   \<and> NewSyncProducer strict_lib (Brokers (fst (getKafkaMetadata test_Metadata)))
      (NewConfig strict_lib) (ext world0) = (Inl (Error ''configuration refused''), 0)
   \<and> Init strict_lib NewKafka test_Metadata world0 =
       (None,
        \<lparr>producer = Some (SyncProducerHandle 0), topics = [''a''], consumerGroup = ''a'',
         brokers = [''a'']\<rparr>,
        \<lparr>chans = [], ctx_done = False,
         trace = [EvNewSyncProducer [''a'']
                    \<lparr>Version = (0, 8, 2, 0), Producer_RequiredAcks = - 1, Producer_Retry_Max = 5,
                     Producer_Return_Successes = True\<rparr>],
         ext = 1\<rparr>)
   \<and> Publish strict_lib
        \<lparr>producer = Some (SyncProducerHandle 0), topics = [''a''], consumerGroup = ''a'',
         brokers = [''a'']\<rparr>
        \<lparr>req_Topic = ''orders'', req_Data = [1, 2, 3]\<rparr>
        \<lparr>chans = [], ctx_done = False, trace = [], ext = 1\<rparr> =
       Inr (None,
            \<lparr>chans = [], ctx_done = False,
             trace = [EvSendMessage (SyncProducerHandle 0)
                        \<lparr>pm_Topic = ''orders'', pm_Value = [1, 2, 3]\<rparr>],
             ext = 1\<rparr>)
   \<and> Publish strict_lib NewKafka \<lparr>req_Topic = ''orders'', req_Data = [1, 2, 3]\<rparr> world0 =
       Inl NilDereference"
proof -
  let ?cfg = "(NewConfig strict_lib)\<lparr>Producer_RequiredAcks := WaitForAll, Producer_Retry_Max := 5,
                              Producer_Return_Successes := True\<rparr>"
  let ?k = "\<lparr>producer = Some (SyncProducerHandle 0), topics = [''a''], consumerGroup = ''a'',
         brokers = [''a'']\<rparr>"
  let ?req = "\<lparr>req_Topic = ''orders'', req_Data = [1, 2, 3]\<rparr>"
  let ?v = "\<lparr>chans = [], ctx_done = False, trace = [], ext = 1::nat\<rparr>"
  have a: "NewSyncProducer strict_lib (Brokers (fst (getKafkaMetadata test_Metadata))) ?cfg
      (ext world0) = (Inr (SyncProducerHandle 0), 1)"
    by (simp add: strict_lib_def fake_lib_def world0_def)
  have r: "NewSyncProducer strict_lib (Brokers (fst (getKafkaMetadata test_Metadata)))
      (NewConfig strict_lib) (ext world0) = (Inl (Error ''configuration refused''), 0)"
    by (simp add: strict_lib_def fake_lib_def world0_def default_Config_def WaitForAll_def)
  have s: "SendMessage strict_lib (SyncProducerHandle 0)
      \<lparr>pm_Topic = req_Topic ?req, pm_Value = req_Data ?req\<rparr> (ext ?v) = ((0, 0, None), 1)"
    by (simp add: strict_lib_def fake_lib_def)
  note run1 = producer_constructed_once_by_Init [OF a refl, of NewKafka ?k ?req ?v]
  note run2 = producer_constructed_once_by_Init [OF a refl, of NewKafka NewKafka ?req world0]
  have i: "Init strict_lib NewKafka test_Metadata world0 =
       (None, ?k,
        \<lparr>chans = [], ctx_done = False,
         trace = [EvNewSyncProducer [''a'']
                    \<lparr>Version = (0, 8, 2, 0), Producer_RequiredAcks = - 1, Producer_Retry_Max = 5,
                     Producer_Return_Successes = True\<rparr>],
         ext = 1\<rparr>)"
    using run1 [THEN conjunct1]
    by (simp add: NewKafka_def getKafkaMetadata_Brokers getKafkaMetadata_Topics
        getKafkaMetadata_ConsumerGroup test_Metadata_def world0_def strict_lib_def fake_lib_def
        default_Config_def WaitForAll_def)
  have p: "Publish strict_lib ?k ?req ?v =
       Inr (None,
            \<lparr>chans = [], ctx_done = False,
             trace = [EvSendMessage (SyncProducerHandle 0)
                        \<lparr>pm_Topic = ''orders'', pm_Value = [1, 2, 3]\<rparr>],
             ext = 1\<rparr>)"
    using run1 [THEN conjunct2, THEN conjunct2] s by simp
  have n: "Publish strict_lib NewKafka ?req world0 = Inl NilDereference"
    using run2 [THEN conjunct2, THEN conjunct1] by (simp add: NewKafka_def)
  show ?thesis using a r i p n by simp
qed

lemma Init_body_resolver_error:
  "Init_body lib k (meta, Some err) w = (Some err, k, w)"
  by (simp add: Init_body_def)

lemma Init_body_producer_error:
  "getSyncProducer lib meta w = (Inl err, w') \<Longrightarrow>
   Init_body lib k (meta, None) w = (Some err, k, w')"
  by (simp add: Init_body_def)

lemma Init_body_success:
  "getSyncProducer lib meta w = (Inr p, w') \<Longrightarrow>
   Init_body lib k (meta, None) w =
     (None,
      k\<lparr>brokers := Brokers meta, producer := Some p, topics := Topics meta,
        consumerGroup := ConsumerGroup meta\<rparr>,
      w')"
  by (simp add: Init_body_def)

text \<open>
  Claim C9. \<^verbatim>\<open>Init\<close> is its body applied to what the resolver returns. Whatever the
  resolver returns: if it is an error, the body returns that error and the adapter (and the
  world) as they were; if the construction of the producer fails, the body returns that
  error and the adapter as it was; and whenever the body returns an error at all, the
  adapter is the one before the call, field by field. Only when the body returns nil do the
  four fields hold the resolved brokers, the constructed producer, the resolved topics and
  the consumer group.
\<close>

theorem Init_atomic_on_error:
  "Init lib k metadata w = Init_body lib k (getKafkaMetadata metadata) w
   \<and> (\<forall>err. snd resolved = Some err \<longrightarrow>
          Init_body lib k resolved w = (Some err, k, w))
   \<and> (\<forall>err. snd resolved = None \<and> fst (getSyncProducer lib (fst resolved) w) = Inl err \<longrightarrow>
          fst (Init_body lib k resolved w) = Some err
        \<and> fst (snd (Init_body lib k resolved w)) = k)
   \<and> (fst (Init_body lib k resolved w) \<noteq> None \<longrightarrow> fst (snd (Init_body lib k resolved w)) = k)
   \<and> (fst (Init_body lib k resolved w) = None \<longrightarrow>
        (\<exists>p. fst (getSyncProducer lib (fst resolved) w) = Inr p
           \<and> fst (snd (Init_body lib k resolved w)) =
               k\<lparr>brokers := Brokers (fst resolved), producer := Some p,
                 topics := Topics (fst resolved),
                 consumerGroup := ConsumerGroup (fst resolved)\<rparr>))"
proof -
  obtain meta perr where r: "resolved = (meta, perr)" by (cases resolved)
  obtain res w' where g: "getSyncProducer lib meta w = (res, w')"
    by (cases "getSyncProducer lib meta w")
  show ?thesis
  proof (cases perr)
    case (Some e)
    then show ?thesis by (simp add: Init_def r Init_body_resolver_error)
  next
    case None
    show ?thesis
    proof (cases res)
      case (Inl e)
      with None r g show ?thesis
        by (simp add: Init_def Init_body_producer_error)
    next
      case (Inr p)
      with None r g show ?thesis
        by (simp add: Init_def Init_body_success)
    qed
  qed
qed

text \<open>An initialised adapter is initialised again while no broker can be reached: the
  error comes back and the adapter keeps its producer and its configuration. The same holds
  for a resolver result that carries an error. A new adapter that is initialised with
  success gets all four fields.\<close>

theorem Init_atomic_on_error_witness:
  "fst (getSyncProducer (fake_lib (Some (Error ''no broker'')) None None [])
          (fst (getKafkaMetadata test_Metadata)) world0) = Inl (Error ''no broker'')
   \<and> fst (Init (fake_lib (Some (Error ''no broker'')) None None []) test_Kafka test_Metadata world0)
     = Some (Error ''no broker'')
   \<and> fst (snd (Init (fake_lib (Some (Error ''no broker'')) None None []) test_Kafka test_Metadata
        world0)) = test_Kafka
   \<and> Init_body (fake_lib None None None []) test_Kafka
        (kafkaMetadata_zero, Some (Error ''bad metadata'')) world0
     = (Some (Error ''bad metadata''), test_Kafka, world0)
   \<and> fst (Init (fake_lib None None None []) NewKafka test_Metadata world0) = None
   \<and> fst (snd (Init (fake_lib None None None []) NewKafka test_Metadata world0)) =
       \<lparr>producer = Some (SyncProducerHandle 7), topics = [''a''], consumerGroup = ''a'',
        brokers = [''a'']\<rparr>"
proof -
  let ?bad = "fake_lib (Some (Error ''no broker'')) None None []"
  let ?good = "fake_lib None None None []"
  let ?res = "getKafkaMetadata test_Metadata"
  have m: "snd ?res = None" by (simp add: getKafkaMetadata_no_error)
  have f: "fst (getSyncProducer ?bad (fst ?res) world0) = Inl (Error ''no broker'')"
    by (simp add: getSyncProducer_def fake_lib_def Let_def)
  note bad = Init_atomic_on_error [of ?bad test_Kafka test_Metadata world0 ?res]
  have e: "fst (Init ?bad test_Kafka test_Metadata world0) = Some (Error ''no broker'')"
    using bad m f by simp
  have k: "fst (snd (Init ?bad test_Kafka test_Metadata world0)) = test_Kafka"
    using bad m f by simp
  have p: "Init_body ?good test_Kafka (kafkaMetadata_zero, Some (Error ''bad metadata'')) world0
     = (Some (Error ''bad metadata''), test_Kafka, world0)"
    using Init_atomic_on_error [of ?good test_Kafka test_Metadata world0
        "(kafkaMetadata_zero, Some (Error ''bad metadata''))"]
    by simp
  note good = Init_atomic_on_error [of ?good NewKafka test_Metadata world0 ?res]
  have n: "fst (Init ?good NewKafka test_Metadata world0) = None"
    by (simp add: Init_unfold getSyncProducer_def fake_lib_def Let_def)
  have g: "fst (getSyncProducer ?good (fst ?res) world0) = Inr (SyncProducerHandle 7)"
    by (simp add: getSyncProducer_def fake_lib_def Let_def)
  have s: "fst (snd (Init ?good NewKafka test_Metadata world0)) =
       \<lparr>producer = Some (SyncProducerHandle 7), topics = [''a''], consumerGroup = ''a'',
        brokers = [''a'']\<rparr>"
    using good n g
    by (simp add: NewKafka_def getKafkaMetadata_Brokers getKafkaMetadata_Topics
        getKafkaMetadata_ConsumerGroup test_Metadata_def)
  show ?thesis using f e k p n s by simp
qed

section \<open>Properties of the subscription\<close>

text \<open>The three ways one iteration of the consume loop can end.\<close>

lemma consume_loop_exit:
  assumes "Consume lib client tps cs (emit (EvConsume client tps) w) = Inr (err, w1)"
    and "ctx_done (case err of Some e \<Rightarrow> emit (EvLogError e) w1 | None \<Rightarrow> w1)"
  shows "consume_loop lib client tps cs w =
           Some (Inr (cs, case err of Some e \<Rightarrow> emit (EvLogError e) w1 | None \<Rightarrow> w1))"
  using assms by (subst consume_loop.simps) (simp add: Let_def)

lemma consume_loop_restart:
  assumes "Consume lib client tps cs (emit (EvConsume client tps) w) = Inr (err, w1)"
    and "\<not> ctx_done (case err of Some e \<Rightarrow> emit (EvLogError e) w1 | None \<Rightarrow> w1)"
  shows "consume_loop lib client tps cs w =
           consume_loop lib client tps
             (cs\<lparr>ready := Some (fst (make_chan
                 (case err of Some e \<Rightarrow> emit (EvLogError e) w1 | None \<Rightarrow> w1)))\<rparr>)
             (snd (make_chan (case err of Some e \<Rightarrow> emit (EvLogError e) w1 | None \<Rightarrow> w1)))"
  using assms by (subst consume_loop.simps) (simp add: Let_def split: prod.splits)

lemma consume_loop_fault:
  assumes "Consume lib client tps cs (emit (EvConsume client tps) w) = Inl f"
  shows "consume_loop lib client tps cs w = Some (Inl f)"
  using assms by (subst consume_loop.simps) simp

text \<open>Whenever the loop exits without a fault, the context has been cancelled.\<close>

lemma consume_loop_exits_cancelled:
  assumes "consume_loop lib client tps cs w = Some r"
  shows "case r of Inl f \<Rightarrow> True | Inr (cs', w') \<Rightarrow> ctx_done w'"
  by (rule consume_loop.raw_induct[OF _ assms])
     (fastforce simp: Let_def split: sum.splits prod.splits if_splits)

text \<open>
  Claim C4. Let an invocation of \<^verbatim>\<open>Consume\<close> inside the loop return, and let \<open>w2\<close> be
  the world right after the error, if any, has been logged. If the context is cancelled in
  \<open>w2\<close>, the loop exits there: its result is \<open>w2\<close> itself, so nothing, and in particular
  no further \<^verbatim>\<open>Consume\<close>, happens after the cancellation is observed. Otherwise the
  loop goes on exactly as a loop started with the ready gate replaced by a channel that did
  not exist before and is not closed. The loop never exits normally in a world whose
  context is not cancelled.
\<close>

theorem consume_loop_checks_cancellation:
  assumes "Consume lib client tps cs (emit (EvConsume client tps) w) = Inr (err, w1)"
    and "w2 = (case err of Some e \<Rightarrow> emit (EvLogError e) w1 | None \<Rightarrow> w1)"
  shows "(ctx_done w2 \<longrightarrow> consume_loop lib client tps cs w = Some (Inr (cs, w2)))
       \<and> (\<not> ctx_done w2 \<longrightarrow>
            consume_loop lib client tps cs w =
              consume_loop lib client tps (cs\<lparr>ready := Some (fst (make_chan w2))\<rparr>)
                (snd (make_chan w2))
          \<and> fst (make_chan w2) = length (chans w2)
          \<and> \<not> is_closed (fst (make_chan w2)) (snd (make_chan w2)))
       \<and> (\<forall>cs' w'. consume_loop lib client tps cs w = Some (Inr (cs', w')) \<longrightarrow> ctx_done w')"
proof (intro conjI impI allI)
  assume "ctx_done w2"
  with assms show "consume_loop lib client tps cs w = Some (Inr (cs, w2))"
    by (simp add: consume_loop_exit)
next
  assume "\<not> ctx_done w2"
  with assms show "consume_loop lib client tps cs w =
      consume_loop lib client tps (cs\<lparr>ready := Some (fst (make_chan w2))\<rparr>) (snd (make_chan w2))"
    by (simp add: consume_loop_restart)
next
  show "fst (make_chan w2) = length (chans w2)"
    by (simp add: make_chan_def)
  show "\<not> is_closed (fst (make_chan w2)) (snd (make_chan w2))"
    by (simp add: make_chan_def is_closed_def)
next
  fix cs' w'
  assume "consume_loop lib client tps cs w = Some (Inr (cs', w'))"
  from consume_loop_exits_cancelled[OF this] show "ctx_done w'" by simp
qed

text \<open>Two sessions of the fake client: the first returns a rebalance error and the loop
  restarts on a fresh gate; the termination signal arrives during the second and the loop
  exits after it, having invoked \<^verbatim>\<open>Consume\<close> twice.\<close>

theorem consume_loop_checks_cancellation_witness:
  "consume_loop (fake_lib None None None []) (ConsumerGroupHandle 3) [''orders'']
      \<lparr>ready = Some 0, callback = None\<rparr>
      \<lparr>chans = [False], ctx_done = False, trace = [], ext = 0\<rparr>
   = consume_loop (fake_lib None None None []) (ConsumerGroupHandle 3) [''orders'']
      \<lparr>ready = Some 1, callback = None\<rparr>
      \<lparr>chans = [True, False], ctx_done = False,
        trace = [EvConsume (ConsumerGroupHandle 3) [''orders''],
                 EvLogError (Error ''rebalance in progress'')], ext = 1\<rparr>
   \<and> consume_loop (fake_lib None None None []) (ConsumerGroupHandle 3) [''orders'']
      \<lparr>ready = Some 1, callback = None\<rparr>
      \<lparr>chans = [True, False], ctx_done = False,
        trace = [EvConsume (ConsumerGroupHandle 3) [''orders''],
                 EvLogError (Error ''rebalance in progress'')], ext = 1\<rparr>
   = Some (Inr (\<lparr>ready = Some 1, callback = None\<rparr>,
        \<lparr>chans = [True, True], ctx_done = True,
          trace = [EvConsume (ConsumerGroupHandle 3) [''orders''],
                   EvLogError (Error ''rebalance in progress''),
                   EvConsume (ConsumerGroupHandle 3) [''orders'']], ext = 2\<rparr>))"
proof -
  let ?lib = "fake_lib None None None []"
  let ?c = "ConsumerGroupHandle 3"
  let ?cs0 = "\<lparr>ready = Some 0, callback = None\<rparr> :: nat consumer"
  let ?cs1 = "\<lparr>ready = Some 1, callback = None\<rparr> :: nat consumer"
  let ?w0 = "\<lparr>chans = [False], ctx_done = False, trace = [], ext = 0::nat\<rparr>"
  let ?w1 = "\<lparr>chans = [True], ctx_done = False,
        trace = [EvConsume ?c [''orders'']], ext = 1::nat\<rparr>"
  let ?w2 = "\<lparr>chans = [True], ctx_done = False,
        trace = [EvConsume ?c [''orders''], EvLogError (Error ''rebalance in progress'')],
        ext = 1::nat\<rparr>"
  let ?w3 = "\<lparr>chans = [True, False], ctx_done = False,
        trace = [EvConsume ?c [''orders''], EvLogError (Error ''rebalance in progress'')],
        ext = 1::nat\<rparr>"
  let ?w4 = "\<lparr>chans = [True, True], ctx_done = True,
          trace = [EvConsume ?c [''orders''], EvLogError (Error ''rebalance in progress''),
                   EvConsume ?c [''orders'']], ext = 2::nat\<rparr>"
  have a1: "Consume ?lib ?c [''orders''] ?cs0 (emit (EvConsume ?c [''orders'']) ?w0)
      = Inr (Some (Error ''rebalance in progress''), ?w1)"
    by (simp add: fake_lib_def fake_Consume_def Setup_def close_chan_def is_closed_def
        ConsumeClaim_def Cleanup_def emit_def)
  have a2: "?w2 = (case Some (Error ''rebalance in progress'') of
      Some e \<Rightarrow> emit (EvLogError e) ?w1 | None \<Rightarrow> ?w1)"
    by (simp add: emit_def)
  have b1: "Consume ?lib ?c [''orders''] ?cs1 (emit (EvConsume ?c [''orders'']) ?w3)
      = Inr (None, ?w4)"
    by (simp add: fake_lib_def fake_Consume_def Setup_def close_chan_def is_closed_def
        ConsumeClaim_def Cleanup_def emit_def)
  have b2: "?w4 = (case None of Some e \<Rightarrow> emit (EvLogError e) ?w4 | None \<Rightarrow> ?w4)"
    by simp
  have r: "consume_loop ?lib ?c [''orders''] ?cs0 ?w0 = consume_loop ?lib ?c [''orders''] ?cs1 ?w3"
    using consume_loop_checks_cancellation [OF a1 a2] by (simp add: make_chan_def)
  have e: "consume_loop ?lib ?c [''orders''] ?cs1 ?w3 = Some (Inr (?cs1, ?w4))"
    using consume_loop_checks_cancellation [OF b1 b2] by simp
  show ?thesis using r e by simp
qed

text \<open>\<^verbatim>\<open>Subscribe\<close> once the consumer-group client has been constructed.\<close>

lemma Subscribe_unfold:
  assumes "NewConsumerGroup lib (brokers k) (consumerGroup k)
             ((NewConfig lib)\<lparr>Version := V1_0_0_0\<rparr>) (ext w) = (Inr client, e0)"
  shows "Subscribe lib k handler w =
     (case consume_loop lib client (topics k)
             \<lparr>ready = Some (length (chans w)), callback = handler\<rparr>
             ((emit (EvNewConsumerGroup (brokers k) (consumerGroup k)
                       ((NewConfig lib)\<lparr>Version := V1_0_0_0\<rparr>)) (snd (make_chan w)))
                \<lparr>ext := e0, ctx_done := False\<rparr>) of
        None \<Rightarrow> None
      | Some (Inl f) \<Rightarrow> Some (Inl f)
      | Some (Inr (cs', w3)) \<Rightarrow>
          if \<not> is_closed (length (chans w)) w3 then None
          else Some (Inr (fst (Close lib client (ext w3)),
                    (emit (EvClose client) w3)\<lparr>ext := snd (Close lib client (ext w3))\<rparr>)))"
  using assms
  by (simp add: Subscribe_def make_chan_def emit_def Let_def
      split: option.splits sum.splits prod.splits)

text \<open>
  Claim C5. Let the consumer-group client be constructed. Whenever the consume loop exits
  in a world \<open>w3\<close> in which the first ready gate has been released, \<^verbatim>\<open>Subscribe\<close>
  returns, and what it returns is the result of closing the client in \<open>w3\<close>: the close
  error if there is one, nil otherwise. Conversely, every value \<^verbatim>\<open>Subscribe\<close> returns
  after the construction arises in this way. Nothing a callback returns reaches the result,
  and \<^verbatim>\<open>ConsumeClaim\<close> returns nil whatever the callback does.
\<close>

theorem Subscribe_returns_Close_result:
  assumes "NewConsumerGroup lib (brokers k) (consumerGroup k)
             ((NewConfig lib)\<lparr>Version := V1_0_0_0\<rparr>) (ext w) = (Inr client, e0)"
    and "w0 = (emit (EvNewConsumerGroup (brokers k) (consumerGroup k)
                        ((NewConfig lib)\<lparr>Version := V1_0_0_0\<rparr>)) (snd (make_chan w)))
                 \<lparr>ext := e0, ctx_done := False\<rparr>"
    and "cs0 = \<lparr>ready = Some (length (chans w)), callback = handler\<rparr>"
  shows "(\<forall>cs' w3.
            consume_loop lib client (topics k) cs0 w0 = Some (Inr (cs', w3))
            \<and> is_closed (length (chans w)) w3
            \<longrightarrow> Subscribe lib k handler w =
                  Some (Inr (fst (Close lib client (ext w3)),
                             (emit (EvClose client) w3)\<lparr>ext := snd (Close lib client (ext w3))\<rparr>)))
       \<and> (\<forall>r w'.
            Subscribe lib k handler w = Some (Inr (r, w'))
            \<longrightarrow> (\<exists>cs' w3.
                   consume_loop lib client (topics k) cs0 w0 = Some (Inr (cs', w3))
                 \<and> is_closed (length (chans w)) w3
                 \<and> r = fst (Close lib client (ext w3))
                 \<and> w' = (emit (EvClose client) w3)\<lparr>ext := snd (Close lib client (ext w3))\<rparr>))
       \<and> fst (ConsumeClaim cs claim v) = None"
proof (intro conjI allI impI)
  fix cs' w3
  assume "consume_loop lib client (topics k) cs0 w0 = Some (Inr (cs', w3))
            \<and> is_closed (length (chans w)) w3"
  then show "Subscribe lib k handler w =
                  Some (Inr (fst (Close lib client (ext w3)),
                             (emit (EvClose client) w3)\<lparr>ext := snd (Close lib client (ext w3))\<rparr>))"
    unfolding Subscribe_unfold[OF assms(1)] assms(2,3) by simp
next
  fix r w'
  assume "Subscribe lib k handler w = Some (Inr (r, w'))"
  then show "\<exists>cs' w3.
                   consume_loop lib client (topics k) cs0 w0 = Some (Inr (cs', w3))
                 \<and> is_closed (length (chans w)) w3
                 \<and> r = fst (Close lib client (ext w3))
                 \<and> w' = (emit (EvClose client) w3)\<lparr>ext := snd (Close lib client (ext w3))\<rparr>"
    unfolding Subscribe_unfold[OF assms(1)] assms(2,3)
    by (auto split: option.splits sum.splits prod.splits if_splits)
next
  show "fst (ConsumeClaim cs claim v) = None" by (simp add: ConsumeClaim_def)
qed

text \<open>The callback rejects the only record, in both sessions. When closing the client
  fails, \<^verbatim>\<open>Subscribe\<close> returns the close error; when it succeeds, \<^verbatim>\<open>Subscribe\<close>
  returns nil, although the callback has failed just the same.\<close>

theorem Subscribe_returns_Close_result_witness:
  "NewConsumerGroup (fake_lib None None (Some (Error ''close failed'')) [\<lparr>cm_Offset = 1, cm_Value = []\<rparr>])
      (brokers test_Kafka) (consumerGroup test_Kafka)
      ((NewConfig (fake_lib None None (Some (Error ''close failed'')) [\<lparr>cm_Offset = 1, cm_Value = []\<rparr>]))
         \<lparr>Version := V1_0_0_0\<rparr>) (ext world0) = (Inr (ConsumerGroupHandle 3), 0)
   \<and> is_closed (length (chans world0)) test_exit_world
   \<and> Subscribe (fake_lib None None (Some (Error ''close failed'')) [\<lparr>cm_Offset = 1, cm_Value = []\<rparr>])
        test_Kafka (Some fake_handler) world0 =
      Some (Inr (Some (Error ''close failed''), test_final_world))
   \<and> Subscribe (fake_lib None None None [\<lparr>cm_Offset = 1, cm_Value = []\<rparr>])
        test_Kafka (Some fake_handler) world0 =
      Some (Inr (None, test_final_world))
   \<and> callbacks (trace test_final_world) =
       [(\<lparr>msg_Topic = ''orders'', msg_Data = []\<rparr>, Some (Error ''empty payload'')),
        (\<lparr>msg_Topic = ''orders'', msg_Data = []\<rparr>, Some (Error ''empty payload''))]"
proof -
  let ?bad = "fake_lib None None (Some (Error ''close failed'')) [\<lparr>cm_Offset = 1, cm_Value = []\<rparr>]"
  let ?good = "fake_lib None None None [\<lparr>cm_Offset = 1, cm_Value = []\<rparr>]"
  let ?c = "ConsumerGroupHandle 3"
  let ?cs0 = "\<lparr>ready = Some (length (chans world0)), callback = Some fake_handler\<rparr>"
  have h1: "NewConsumerGroup ?bad (brokers test_Kafka) (consumerGroup test_Kafka)
      ((NewConfig ?bad)\<lparr>Version := V1_0_0_0\<rparr>) (ext world0) = (Inr ?c, 0)"
    by (simp add: fake_lib_def world0_def)
  have g1: "NewConsumerGroup ?good (brokers test_Kafka) (consumerGroup test_Kafka)
      ((NewConfig ?good)\<lparr>Version := V1_0_0_0\<rparr>) (ext world0) = (Inr ?c, 0)"
    by (simp add: fake_lib_def world0_def)
  have eb: "case consume_loop ?bad ?c (topics test_Kafka) ?cs0
      ((emit (EvNewConsumerGroup (brokers test_Kafka) (consumerGroup test_Kafka)
                ((NewConfig ?bad)\<lparr>Version := V1_0_0_0\<rparr>)) (snd (make_chan world0)))
         \<lparr>ext := 0, ctx_done := False\<rparr>) of
        Some (Inr (cs', w3)) \<Rightarrow> w3 = test_exit_world | _ \<Rightarrow> False"
    by code_simp
  then obtain csb where lb: "consume_loop ?bad ?c (topics test_Kafka) ?cs0
      ((emit (EvNewConsumerGroup (brokers test_Kafka) (consumerGroup test_Kafka)
                ((NewConfig ?bad)\<lparr>Version := V1_0_0_0\<rparr>)) (snd (make_chan world0)))
         \<lparr>ext := 0, ctx_done := False\<rparr>) = Some (Inr (csb, test_exit_world))"
    by (auto split: option.splits sum.splits)
  have eg: "case consume_loop ?good ?c (topics test_Kafka) ?cs0
      ((emit (EvNewConsumerGroup (brokers test_Kafka) (consumerGroup test_Kafka)
                ((NewConfig ?good)\<lparr>Version := V1_0_0_0\<rparr>)) (snd (make_chan world0)))
         \<lparr>ext := 0, ctx_done := False\<rparr>) of
        Some (Inr (cs', w3)) \<Rightarrow> w3 = test_exit_world | _ \<Rightarrow> False"
    by code_simp
  then obtain csg where lg: "consume_loop ?good ?c (topics test_Kafka) ?cs0
      ((emit (EvNewConsumerGroup (brokers test_Kafka) (consumerGroup test_Kafka)
                ((NewConfig ?good)\<lparr>Version := V1_0_0_0\<rparr>)) (snd (make_chan world0)))
         \<lparr>ext := 0, ctx_done := False\<rparr>) = Some (Inr (csg, test_exit_world))"
    by (auto split: option.splits sum.splits)
  have c: "is_closed (length (chans world0)) test_exit_world"
    by (simp add: is_closed_def world0_def test_exit_world_def)
  have f: "(emit (EvClose ?c) test_exit_world)\<lparr>ext := 2\<rparr> = test_final_world"
    by (simp add: emit_def test_exit_world_def test_final_world_def)
  have xb: "Close ?bad ?c (ext test_exit_world) = (Some (Error ''close failed''), 2)"
    by (simp add: fake_lib_def test_exit_world_def)
  have xg: "Close ?good ?c (ext test_exit_world) = (None, 2)"
    by (simp add: fake_lib_def test_exit_world_def)
  have b: "Subscribe ?bad test_Kafka (Some fake_handler) world0 =
      Some (Inr (Some (Error ''close failed''), test_final_world))"
    using Subscribe_returns_Close_result [OF h1 refl refl, THEN conjunct1, rule_format, OF conjI, OF lb c]
    by (simp add: xb f)
  have g: "Subscribe ?good test_Kafka (Some fake_handler) world0 =
      Some (Inr (None, test_final_world))"
    using Subscribe_returns_Close_result [OF g1 refl refl, THEN conjunct1, rule_format, OF conjI, OF lg c]
    by (simp add: xg f)
  have t: "callbacks (trace test_final_world) =
       [(\<lparr>msg_Topic = ''orders'', msg_Data = []\<rparr>, Some (Error ''empty payload'')),
        (\<lparr>msg_Topic = ''orders'', msg_Data = []\<rparr>, Some (Error ''empty payload''))]"
    by (simp add: test_final_world_def callbacks_def)
  show ?thesis using h1 c b g t by simp
qed

end
